theory Spec2Isabelle
  imports Main
begin

section \<open>Data model (src/blockchain.py)\<close>

text \<open>
  Numbers that Python keeps as floats (amounts, timestamps) are values of a type \<open>'a\<close>
  that only has to provide \<open>0\<close>, \<open>+\<close>, \<open>-\<close> (binary and unary) and \<open>\<le>\<close>; no law of
  arithmetic is assumed about them, so every result below holds for whatever the
  arithmetic of the number type is. Block indices are Python integers.

  Strings are byte strings (UTF-8). A transaction dictionary is taken to hold its three
  keys, with strings as names and numbers as amounts.

  What the program writes and never reads back is left out: the logger, the lines of
  the transaction log and the balance table. The JSON files it reads back (the per-user
  files and the snapshots) are a store, introduced with the bookkeeping below.
\<close>

record 'a transaction =
  sender :: string
  recipient :: string
  amount :: 'a

record 'a block =
  index :: int
  timestamp :: 'a
  transaction :: "'a transaction"
  previous_hash :: string
  hash :: string

text \<open>
  \<open>Block.calculate_hash\<close> is the SHA-256 hex digest of the JSON dump (keys sorted) of the
  four fields index, timestamp, transaction and previous_hash. The digest itself belongs
  to \<open>hashlib\<close> and \<open>json\<close>; it is a parameter \<open>H\<close> of the model, a function of exactly
  those four fields.
\<close>

type_synonym 'a digest = "int \<Rightarrow> 'a \<Rightarrow> 'a transaction \<Rightarrow> string \<Rightarrow> string"

definition calculate_hash :: "'a digest \<Rightarrow> 'a block \<Rightarrow> string" where
  "calculate_hash H b = H (index b) (timestamp b) (transaction b) (previous_hash b)"

text \<open>\<open>Block.__init__\<close>: the four fields are stored and the hash is computed from them.\<close>

definition Block_init :: "'a digest \<Rightarrow> int \<Rightarrow> 'a \<Rightarrow> 'a transaction \<Rightarrow> string \<Rightarrow> 'a block" where
  "Block_init H i t tx p =
     (let b = \<lparr>index = i, timestamp = t, transaction = tx, previous_hash = p, hash = []\<rparr>
      in b\<lparr>hash := calculate_hash H b\<rparr>)"

text \<open>
  \<open>Block.to_dict\<close> yields a dictionary with the five keys of a block, so a block
  dictionary is a value of the same record type. \<open>Block.from_dict\<close> builds the block
  from four of them and then overwrites the computed hash by the stored one.
\<close>

definition from_dict :: "'a digest \<Rightarrow> 'a block \<Rightarrow> 'a block" where
  "from_dict H d =
     (Block_init H (index d) (timestamp d) (transaction d) (previous_hash d))\<lparr>hash := hash d\<rparr>"

text \<open>
  \<open>str.lower()\<close> folds the letters of Unicode. \<open>lower\<close> folds the ASCII letters
  \<open>A\<close>..\<open>Z\<close> and keeps every other byte. The two agree on every ASCII string, and on
  whether a string lower-cases to one of the six names the program compares with
  (\<open>genesis\<close>, \<open>initial_balance\<close> and the four users): the only character outside
  ASCII that \<open>str.lower()\<close> sends to ASCII letters alone is the Kelvin sign, to \<open>k\<close>, and
  none of the six names holds a \<open>k\<close>. So \<open>lower\<close> is used where the program only
  compares a lower-cased name with these names. Where the lower-cased name is kept or
  becomes part of a file name, the model takes \<open>str.lower()\<close> itself as a parameter
  \<open>L\<close> (the field \<open>str_lower\<close> of the platform below).
\<close>

definition lower_char :: "char \<Rightarrow> char" where
  "lower_char c =
     (case map_of (zip ''ABCDEFGHIJKLMNOPQRSTUVWXYZ'' ''abcdefghijklmnopqrstuvwxyz'') c of
        Some l \<Rightarrow> l
      | None \<Rightarrow> c)"

definition lower :: "string \<Rightarrow> string" where
  "lower s = map lower_char s"

text \<open>
  The exceptions: the \<open>ValueError\<close> of \<open>add_transaction\<close> (l.170), the \<open>IndexError\<close> of
  \<open>self.chain[-1]\<close>, the \<open>KeyError\<close> of a missing key in a user file, and what
  \<open>time.localtime\<close> raises on a timestamp it cannot convert (\<open>OverflowError\<close>, \<open>OSError\<close>
  or \<open>ValueError\<close>, depending on the value and the platform). The source catches none of
  them.
\<close>

datatype error = InsufficientFunds | IndexError | KeyError | LocaltimeError

text \<open>
  The state of a \<open>Blockchain\<close> object: its lower-cased user id and its chain. The roster
  \<open>self.users\<close> is the same constant list in every object.
\<close>

record 'a blockchain =
  user_id :: string
  chain :: "'a block list"

definition users :: "string list" where
  "users = [''alice'', ''bob'', ''charlie'', ''dave'']"

section \<open>Genesis\<close>

text \<open>\<open>create_genesis_block\<close>; \<open>t\<close> is the value of \<open>time.time()\<close>.\<close>

definition genesis_block :: "'a::zero digest \<Rightarrow> 'a \<Rightarrow> 'a block" where
  "genesis_block H t =
     Block_init H 0 t \<lparr>sender = ''genesis'', recipient = ''genesis'', amount = 0\<rparr> ''0''"

definition create_genesis_block :: "'a::zero digest \<Rightarrow> 'a blockchain \<Rightarrow> 'a \<Rightarrow> 'a blockchain" where
  "create_genesis_block H bc t = bc\<lparr>chain := chain bc @ [genesis_block H t]\<rparr>"

text \<open>
  \<open>Blockchain.__init__\<close> on a node that has no persisted snapshot: the user id is
  lower-cased (by \<open>str.lower()\<close>, the parameter \<open>L\<close>), the chain starts empty and
  receives the genesis block.
\<close>

definition Blockchain_init ::
  "'a::zero digest \<Rightarrow> (string \<Rightarrow> string) \<Rightarrow> string \<Rightarrow> 'a \<Rightarrow> 'a blockchain" where
  "Blockchain_init H L uid t = create_genesis_block H \<lparr>user_id = L uid, chain = []\<rparr> t"

text \<open>\<open>get_latest_block\<close>: \<open>self.chain[-1]\<close> raises IndexError on an empty chain.\<close>

definition get_latest_block :: "'a blockchain \<Rightarrow> error + 'a block" where
  "get_latest_block bc = (case chain bc of [] \<Rightarrow> Inl IndexError | _ # _ \<Rightarrow> Inr (last (chain bc)))"

section \<open>Balances\<close>

text \<open>
  The loop body of \<open>calculate_balances\<close>. The dictionary is a map; \<open>k in balances\<close> is
  \<open>balances k \<noteq> None\<close>.
\<close>

definition apply_transaction ::
  "(string \<rightharpoonup> 'a::{plus,minus}) \<Rightarrow> 'a transaction \<Rightarrow> (string \<rightharpoonup> 'a)" where
  "apply_transaction balances tx =
     (let s = lower (sender tx); r = lower (recipient tx); a = amount tx in
      if s = ''initial_balance'' then
        (case balances r of Some _ \<Rightarrow> balances(r \<mapsto> a) | None \<Rightarrow> balances)
      else
        (let balances1 = (case balances s of Some v \<Rightarrow> balances(s \<mapsto> v - a) | None \<Rightarrow> balances)
         in (case balances1 r of Some v \<Rightarrow> balances1(r \<mapsto> v + a) | None \<Rightarrow> balances1)))"

fun replay :: "(string \<rightharpoonup> 'a::{plus,minus}) \<Rightarrow> 'a block list \<Rightarrow> (string \<rightharpoonup> 'a)" where
  "replay balances [] = balances"
| "replay balances (b # bs) = replay (apply_transaction balances (transaction b)) bs"

definition initial_balances :: "string \<rightharpoonup> 'a::zero" where
  "initial_balances = [''alice'' \<mapsto> 0, ''bob'' \<mapsto> 0, ''charlie'' \<mapsto> 0, ''dave'' \<mapsto> 0]"

text \<open>\<open>calculate_balances\<close>: the loop runs over \<open>self.chain[1:]\<close>.\<close>

definition calculate_balances :: "'a::{zero,plus,minus} blockchain \<Rightarrow> (string \<rightharpoonup> 'a)" where
  "calculate_balances bc = replay initial_balances (drop 1 (chain bc))"

section \<open>Admission\<close>

definition is_transaction_valid :: "'a::{zero,plus,minus,ord} blockchain \<Rightarrow> 'a transaction \<Rightarrow> bool" where
  "is_transaction_valid bc tx =
     (let s = lower (sender tx); a = amount tx in
      if s = ''genesis'' then True
      else if s = ''initial_balance'' then True
      else (let balances = calculate_balances bc in
            (case balances s of Some v \<Rightarrow> a \<le> v | None \<Rightarrow> False)))"

text \<open>
  The first part of \<open>add_transaction\<close> (l.161-179), up to and including the append;
  \<open>now\<close> is the value of \<open>time.time()\<close> and \<open>L\<close> is \<open>str.lower()\<close>. The result pairs
  what this part raises (\<open>Inl\<close>) or the new block (\<open>Inr\<close>) with the object as it leaves
  it. The whole method, with the bookkeeping that follows the append, is
  \<open>add_transaction\<close> below.
\<close>

definition add_transaction_append ::
  "'a::{zero,plus,minus,ord} digest \<Rightarrow> (string \<Rightarrow> string) \<Rightarrow> 'a blockchain
     \<Rightarrow> string \<Rightarrow> string \<Rightarrow> 'a \<Rightarrow> 'a \<Rightarrow> (error + 'a block) \<times> 'a blockchain" where
  "add_transaction_append H L bc s r a now =
     (let tx = \<lparr>sender = L s, recipient = L r, amount = a\<rparr> in
      if \<not> is_transaction_valid bc tx then (Inl InsufficientFunds, bc)
      else (case get_latest_block bc of
              Inl e \<Rightarrow> (Inl e, bc)
            | Inr previous_block \<Rightarrow>
                (let new_block = Block_init H (index previous_block + 1) now tx (hash previous_block)
                 in (Inr new_block, bc\<lparr>chain := chain bc @ [new_block]\<rparr>))))"

text \<open>
  \<open>set_initial_balance\<close> has no return statement: what it returns is Python's \<open>None\<close>,
  the \<open>None\<close> of the option in the result. After the append the method assigns the key
  \<open>balance\<close> of the node's user file, when that file exists, and writes the snapshot
  (l.213-232); neither step raises on files that hold JSON objects, and the method
  never calls \<open>time.localtime\<close>.
\<close>

definition set_initial_balance ::
  "'a digest \<Rightarrow> 'a blockchain \<Rightarrow> 'a \<Rightarrow> 'a \<Rightarrow> (error + 'a block option) \<times> 'a blockchain" where
  "set_initial_balance H bc balance now =
     (let tx = \<lparr>sender = ''initial_balance'', recipient = user_id bc, amount = balance\<rparr> in
      case get_latest_block bc of
        Inl e \<Rightarrow> (Inl e, bc)
      | Inr previous_block \<Rightarrow>
          (let new_block = Block_init H (index previous_block + 1) now tx (hash previous_block)
           in (Inr None, bc\<lparr>chain := chain bc @ [new_block]\<rparr>)))"

section \<open>Validation\<close>

text \<open>
  The loop of \<open>is_chain_valid\<close> over \<open>range(1, len(self.chain))\<close>, leaving at the first
  mismatch.
\<close>

fun is_chain_valid_loop :: "'a digest \<Rightarrow> 'a block list \<Rightarrow> nat list \<Rightarrow> bool" where
  "is_chain_valid_loop H c [] = True"
| "is_chain_valid_loop H c (i # is) =
     (let current_block = c ! i; previous_block = c ! (i - 1) in
      if hash current_block \<noteq> calculate_hash H current_block then False
      else if previous_hash current_block \<noteq> hash previous_block then False
      else is_chain_valid_loop H c is)"

definition is_chain_valid :: "'a digest \<Rightarrow> 'a blockchain \<Rightarrow> bool" where
  "is_chain_valid H bc = is_chain_valid_loop H (chain bc) [1..<length (chain bc)]"

section \<open>Blocks and chains from peers\<close>

text \<open>
  The first part of \<open>add_block_from_peer\<close> (l.431-457), up to and including the append:
  whether the block was appended, and the object as this part leaves it. The whole
  method is \<open>add_block_from_peer\<close> below.
\<close>

definition add_block_from_peer_append ::
  "'a::{zero,plus,minus,ord} digest \<Rightarrow> 'a blockchain \<Rightarrow> 'a block \<Rightarrow> bool \<times> 'a blockchain" where
  "add_block_from_peer_append H bc block_dict =
     (let block = from_dict H block_dict in
      if length (chain bc) > 0 then
        (let latest_block = last (chain bc) in
         if index block \<noteq> index latest_block + 1 then (False, bc)
         else if previous_hash block \<noteq> hash latest_block then (False, bc)
         else if \<not> is_transaction_valid bc (transaction block) then (False, bc)
         else (True, bc\<lparr>chain := chain bc @ [block]\<rparr>))
      else (True, bc\<lparr>chain := chain bc @ [block]\<rparr>))"




section \<open>Files and the platform\<close>

text \<open>
  The dictionary \<open>transaction_data\<close> that \<open>update_user_files\<close> appends to a user's
  history: its keys \<open>type\<close>, \<open>to\<close> or \<open>from\<close> (absent for an initial balance),
  \<open>amount\<close>, \<open>timestamp\<close> and \<open>block_hash\<close>.
\<close>

record 'a transaction_data =
  entry_type :: string
  counterparty :: "string option"
  entry_amount :: 'a
  entry_timestamp :: string
  block_hash :: string

text \<open>
  The JSON files are a store from file to content. Every file holds a JSON object over
  the keys the program writes: \<open>name\<close>, \<open>balance\<close> and \<open>transactions\<close> in a user file,
  \<open>chain\<close> in a snapshot. A key that a file lacks is \<open>None\<close>; a file that does not exist
  is \<open>None\<close> in the store. The node's own log and snapshot files can be opened for
  writing, as they were when the object was built.
\<close>

record 'a json_object =
  name_key :: "string option"
  balance_key :: "'a option"
  transactions_key :: "'a transaction_data list option"
  chain_key :: "'a block list option"

type_synonym 'a files = "string \<rightharpoonup> 'a json_object"

text \<open>
  What the program takes from its platform: the digest, \<open>str.lower()\<close>,
  \<open>time.strftime("%Y-%m-%d %H:%M:%S", time.localtime(t))\<close> with \<open>None\<close> where the
  conversion raises, and the file a path name denotes (two spellings of one file denote
  the same file).
\<close>

record 'a platform =
  hash_of :: "'a digest"
  str_lower :: "string \<Rightarrow> string"
  local_time :: "'a \<Rightarrow> string option"
  file_of :: "string \<Rightarrow> string"



section \<open>Bookkeeping after a change of the chain\<close>

text \<open>The path \<open>users/{user}.json\<close> and the content of a new user file.\<close>

definition user_file :: "'a platform \<Rightarrow> string \<Rightarrow> string" where
  "user_file P user = file_of P (''users/'' @ user @ ''.json'')"



text \<open>\<open>save_to_file\<close> on the node's snapshot: the file is overwritten by \<open>{"chain": [...]}\<close>.\<close>

definition save_to_file :: "'a platform \<Rightarrow> 'a files \<Rightarrow> 'a blockchain \<Rightarrow> 'a files" where
  "save_to_file P fs bc =
     fs(file_of P (''data/'' @ user_id bc @ ''_blockchain.json'') \<mapsto>
          \<lparr>name_key = None, balance_key = None, transactions_key = None,
           chain_key = Some (chain bc)\<rparr>)"

text \<open>
  \<open>update_transaction_log\<close>: the line it appends is never read back; what is kept is
  the error of \<open>time.localtime(block.timestamp)\<close> (l.240).
\<close>

definition update_transaction_log :: "'a platform \<Rightarrow> 'a block \<Rightarrow> error option" where
  "update_transaction_log P block =
     (case local_time P (timestamp block) of None \<Rightarrow> Some LocaltimeError | Some _ \<Rightarrow> None)"

text \<open>
  \<open>update_user_file\<close>: nothing happens when the file does not exist; otherwise the key
  \<open>balance\<close> is increased, or assigned for an initial balance, the entry is appended to
  the key \<open>transactions\<close>, and the file is written. A missing key raises \<open>KeyError\<close> before
  the file is written. The result is the error raised, if any, and the store.
\<close>

definition update_user_file ::
  "'a::plus platform \<Rightarrow> 'a files \<Rightarrow> string \<Rightarrow> 'a \<Rightarrow> 'a transaction_data
     \<Rightarrow> error option \<times> 'a files" where
  "update_user_file P fs user amount_change transaction_data =
     (case fs (user_file P user) of
        None \<Rightarrow> (None, fs)
      | Some user_data \<Rightarrow>
          (case (if entry_type transaction_data \<noteq> ''initial_balance''
                 then (case balance_key user_data of
                         None \<Rightarrow> Inl KeyError
                       | Some v \<Rightarrow> Inr (user_data\<lparr>balance_key := Some (v + amount_change)\<rparr>))
                 else Inr (user_data\<lparr>balance_key := Some amount_change\<rparr>)) of
             Inl e \<Rightarrow> (Some e, fs)
           | Inr user_data1 \<Rightarrow>
               (case transactions_key user_data1 of
                  None \<Rightarrow> (Some KeyError, fs)
                | Some entries \<Rightarrow>
                    (None, fs(user_file P user \<mapsto>
                       user_data1\<lparr>transactions_key := Some (entries @ [transaction_data])\<rparr>)))))"

text \<open>
  \<open>update_user_files\<close>: the names are lower-cased, the timestamp is formatted (l.250,
  before every test), and the sender's and the recipient's files are updated. For the
  sender \<open>initial_balance\<close> the lower-cased recipient goes into the path unchecked (l.258).
\<close>

definition update_user_files ::
  "'a::{plus,uminus} platform \<Rightarrow> 'a files \<Rightarrow> 'a block \<Rightarrow> error option \<times> 'a files" where
  "update_user_files P fs block =
     (let s = str_lower P (sender (transaction block));
          r = str_lower P (recipient (transaction block));
          a = amount (transaction block) in
      case local_time P (timestamp block) of
        None \<Rightarrow> (Some LocaltimeError, fs)
      | Some ts \<Rightarrow>
          if s = ''genesis'' \<and> r = ''genesis'' then (None, fs)
          else if s = ''initial_balance'' then
            update_user_file P fs r a
              \<lparr>entry_type = ''initial_balance'', counterparty = None, entry_amount = a,
               entry_timestamp = ts, block_hash = hash block\<rparr>
          else
            (case (if s \<in> set users
                   then update_user_file P fs s (- a)
                          \<lparr>entry_type = ''sent'', counterparty = Some r, entry_amount = a,
                           entry_timestamp = ts, block_hash = hash block\<rparr>
                   else (None, fs)) of
               (Some e, fs1) \<Rightarrow> (Some e, fs1)
             | (None, fs1) \<Rightarrow>
                 if r \<in> set users
                 then update_user_file P fs1 r a
                        \<lparr>entry_type = ''received'', counterparty = Some s, entry_amount = a,
                         entry_timestamp = ts, block_hash = hash block\<rparr>
                 else (None, fs1)))"




section \<open>The methods with their bookkeeping\<close>

text \<open>
  Each result is what the call raises (\<open>Inl\<close>) or returns (\<open>Inr\<close>), the store and the
  object as the call leaves them. \<open>display_balance_table\<close> only prints.

  \<open>add_transaction\<close>: validation and append (l.161-179), then \<open>update_transaction_log\<close>,
  \<open>update_user_files\<close>, \<open>save_to_file\<close> and the return of the new block (l.181-193).
\<close>

definition add_transaction ::
  "'a::{zero,plus,minus,uminus,ord} platform \<Rightarrow> 'a files \<Rightarrow> 'a blockchain
     \<Rightarrow> string \<Rightarrow> string \<Rightarrow> 'a \<Rightarrow> 'a \<Rightarrow> (error + 'a block) \<times> 'a files \<times> 'a blockchain" where
  "add_transaction P fs bc s r a now =
     (case add_transaction_append (hash_of P) (str_lower P) bc s r a now of
        (Inl e, bc1) \<Rightarrow> (Inl e, fs, bc1)
      | (Inr new_block, bc1) \<Rightarrow>
          (case update_transaction_log P new_block of
             Some e \<Rightarrow> (Inl e, fs, bc1)
           | None \<Rightarrow>
               (case update_user_files P fs new_block of
                  (Some e, fs1) \<Rightarrow> (Inl e, fs1, bc1)
                | (None, fs1) \<Rightarrow> (Inr new_block, save_to_file P fs1 bc1, bc1))))"

text \<open>
  \<open>add_block_from_peer\<close>: the checks and the append (l.431-457), then
  \<open>update_transaction_log\<close>, \<open>update_user_files\<close>, \<open>save_to_file\<close> and \<open>return True\<close>
  (l.459-471).
\<close>

definition add_block_from_peer ::
  "'a::{zero,plus,minus,uminus,ord} platform \<Rightarrow> 'a files \<Rightarrow> 'a blockchain \<Rightarrow> 'a block
     \<Rightarrow> (error + bool) \<times> 'a files \<times> 'a blockchain" where
  "add_block_from_peer P fs bc block_dict =
     (let block = from_dict (hash_of P) block_dict;
          (appended, bc1) = add_block_from_peer_append (hash_of P) bc block_dict in
      if \<not> appended then (Inr False, fs, bc1)
      else
        (case update_transaction_log P block of
           Some e \<Rightarrow> (Inl e, fs, bc1)
         | None \<Rightarrow>
             (case update_user_files P fs block of
                (Some e, fs1) \<Rightarrow> (Inl e, fs1, bc1)
              | (None, fs1) \<Rightarrow> (Inr True, save_to_file P fs1 bc1, bc1))))"



section \<open>Chains produced by local admission\<close>

text \<open>
  The objects a node reaches from a fresh genesis block by calls of \<open>add_transaction\<close>
  and \<open>set_initial_balance\<close> that append their block. A call of \<open>add_transaction\<close>
  that returns is one of them, whatever its bookkeeping did
  (\<open>add_transaction_returns\<close> below).
\<close>

inductive produced :: "'a::{zero,plus,minus,ord} digest \<Rightarrow> 'a blockchain \<Rightarrow> bool" for H where
  fresh: "produced H (Blockchain_init H L uid t)"
| admitted: "produced H bc \<Longrightarrow> add_transaction_append H L bc s r a now = (Inr b, bc') \<Longrightarrow> produced H bc'"
| seeded: "produced H bc \<Longrightarrow> set_initial_balance H bc a now = (Inr x, bc') \<Longrightarrow> produced H bc'"

section \<open>The specification's wording\<close>






section \<open>Concrete chains\<close>

text \<open>
  A small digest and a few chains over integer amounts, on which the definitions are
  evaluated.
\<close>

definition example_digest :: "int digest" where
  "example_digest i t tx p = sender tx @ ''>'' @ recipient tx @ ''/'' @ p"

definition node0 :: "int blockchain" where
  "node0 = Blockchain_init example_digest lower ''Alice'' 0"

definition seed_block :: "int block" where
  "seed_block = Block_init example_digest 1 1
     \<lparr>sender = ''initial_balance'', recipient = ''alice'', amount = 500\<rparr>
     (hash (genesis_block example_digest 0))"

definition pay_block :: "int block" where
  "pay_block = Block_init example_digest 2 2
     \<lparr>sender = ''alice'', recipient = ''bob'', amount = 200\<rparr> (hash seed_block)"

definition node1 :: "int blockchain" where
  "node1 = \<lparr>user_id = ''alice'', chain = [genesis_block example_digest 0, seed_block]\<rparr>"

definition node2 :: "int blockchain" where
  "node2 = \<lparr>user_id = ''alice'', chain = [genesis_block example_digest 0, seed_block, pay_block]\<rparr>"











section \<open>Blocks and their hashes\<close>

lemma Block_init_fields:
  "index (Block_init H i t tx p) = i"
  "timestamp (Block_init H i t tx p) = t"
  "transaction (Block_init H i t tx p) = tx"
  "previous_hash (Block_init H i t tx p) = p"
  "hash (Block_init H i t tx p) = H i t tx p"
  by (simp_all add: Block_init_def calculate_hash_def Let_def)

lemma Block_init_sealed:
  "hash (Block_init H i t tx p) = calculate_hash H (Block_init H i t tx p)"
  by (simp add: Block_init_def calculate_hash_def Let_def)

lemma from_dict_id: "from_dict H d = d"
  by (cases d) (simp add: from_dict_def Block_init_def Let_def)


section \<open>Consensus: the longest valid chain\<close>







section \<open>Chain validation\<close>

lemma is_chain_valid_loop_iff:
  "is_chain_valid_loop H c js =
     (\<forall>i\<in>set js. hash (c ! i) = calculate_hash H (c ! i) \<and> previous_hash (c ! i) = hash (c ! (i - 1)))"
  by (induction js) (auto simp: Let_def)

lemma is_chain_valid_ball:
  "is_chain_valid H bc =
     (\<forall>i\<in>{1..<length (chain bc)}.
        hash (chain bc ! i) = calculate_hash H (chain bc ! i) \<and>
        previous_hash (chain bc ! i) = hash (chain bc ! (i - 1)))"
  by (simp add: is_chain_valid_def is_chain_valid_loop_iff)

text \<open>
  Claim C5. \<open>is_chain_valid\<close> returns true exactly when every block at an index
  \<open>i > 0\<close> stores the hash recomputed from its fields and names the hash of the block
  at \<open>i - 1\<close> as its previous hash. Any mismatch makes the result false. The method
  only reads the object: its model returns the flag and has no object to update.
\<close>

theorem is_chain_valid_iff:
  "is_chain_valid H bc =
     (\<forall>i. 0 < i \<and> i < length (chain bc) \<longrightarrow>
        hash (chain bc ! i) = calculate_hash H (chain bc ! i) \<and>
        previous_hash (chain bc ! i) = hash (chain bc ! (i - 1)))"
  by (auto simp: is_chain_valid_def is_chain_valid_loop_iff)

theorem is_chain_valid_iff_witness:
  "is_chain_valid example_digest node2 \<and>
   (0 < (1::nat) \<and> 1 < length (chain node2)) \<and>
   hash (chain node2 ! 1) = calculate_hash example_digest (chain node2 ! 1) \<and>
   previous_hash (chain node2 ! 1) = hash (chain node2 ! (1 - 1))"
proof -
  have valid: "is_chain_valid example_digest node2"
    by code_simp
  have inside: "0 < (1::nat) \<and> 1 < length (chain node2)"
    by code_simp
  from valid inside show ?thesis
    using is_chain_valid_iff [of example_digest node2] by blast
qed

lemma is_chain_valid_append:
  assumes "is_chain_valid H bc" "chain bc \<noteq> []"
    "hash b = calculate_hash H b" "previous_hash b = hash (last (chain bc))"
  shows "is_chain_valid H (bc\<lparr>chain := chain bc @ [b]\<rparr>)"
  unfolding is_chain_valid_ball
proof
  let ?c = "chain bc" and ?c' = "chain (bc\<lparr>chain := chain bc @ [b]\<rparr>)"
  fix i assume i: "i \<in> {1..<length ?c'}"
  show "hash (?c' ! i) = calculate_hash H (?c' ! i) \<and> previous_hash (?c' ! i) = hash (?c' ! (i - 1))"
  proof (cases "i < length ?c")
    case True
    with i assms(1) show ?thesis by (auto simp: is_chain_valid_ball nth_append)
  next
    case False
    with i have "i = length ?c" by simp
    with assms show ?thesis by (simp add: nth_append last_conv_nth)
  qed
qed

section \<open>Local admission keeps the chain valid\<close>

lemma add_transaction_append_Inr:
  assumes "add_transaction_append H L bc s r a now = (Inr b, bc')"
  shows "chain bc \<noteq> [] \<and> bc' = bc\<lparr>chain := chain bc @ [b]\<rparr> \<and>
         b = Block_init H (index (last (chain bc)) + 1) now
               \<lparr>sender = L s, recipient = L r, amount = a\<rparr> (hash (last (chain bc)))"
  using assms
  by (auto simp: add_transaction_append_def get_latest_block_def Let_def split: if_splits list.splits)

lemma set_initial_balance_Inr:
  assumes "set_initial_balance H bc a now = (Inr x, bc')"
  shows "chain bc \<noteq> [] \<and> (\<exists>b. bc' = bc\<lparr>chain := chain bc @ [b]\<rparr> \<and>
         b = Block_init H (index (last (chain bc)) + 1) now
               \<lparr>sender = ''initial_balance'', recipient = user_id bc, amount = a\<rparr>
               (hash (last (chain bc))))"
  using assms
  by (auto simp: set_initial_balance_def get_latest_block_def Let_def split: if_splits list.splits)

lemma produced_invariant: "produced H bc \<Longrightarrow> chain bc \<noteq> [] \<and> is_chain_valid H bc"
proof (induction rule: produced.induct)
  case (fresh L uid t)
  show ?case
    by (simp add: Blockchain_init_def create_genesis_block_def is_chain_valid_def)
next
  case (admitted bc L s r a now b bc')
  from add_transaction_append_Inr [OF admitted.hyps(2)] admitted.IH show ?case
    by (auto intro!: is_chain_valid_append simp: Block_init_sealed Block_init_fields)
next
  case (seeded bc a now x bc')
  from set_initial_balance_Inr [OF seeded.hyps(2)] seeded.IH show ?case
    by (auto intro!: is_chain_valid_append simp: Block_init_sealed Block_init_fields)
qed

text \<open>
  Claim C6. Every chain obtained from a fresh genesis block by a finite sequence of
  successful \<open>add_transaction\<close> and \<open>set_initial_balance\<close> calls passes
  \<open>is_chain_valid\<close>.
\<close>

theorem produced_chain_valid: "produced H bc \<Longrightarrow> is_chain_valid H bc"
  by (simp add: produced_invariant)

theorem produced_chain_valid_witness:
  "produced example_digest node2 \<and> is_chain_valid example_digest node2"
proof -
  have seed: "set_initial_balance example_digest node0 500 1 = (Inr None, node1)"
    by code_simp
  have pay: "add_transaction_append example_digest lower node1 ''Alice'' ''Bob'' 200 2 = (Inr pay_block, node2)"
    by code_simp
  have "produced example_digest node0"
    unfolding node0_def by (rule produced.fresh)
  then have "produced example_digest node1"
    by (rule produced.seeded) (rule seed)
  then have "produced example_digest node2"
    by (rule produced.admitted) (rule pay)
  then show ?thesis
    using produced_chain_valid [of example_digest node2] by simp
qed

section \<open>Admission of local transactions: validation and append\<close>






section \<open>Blocks received from peers: the checks\<close>

lemma add_block_from_peer_append_rule:
  "chain bc \<noteq> [] \<Longrightarrow>
   add_block_from_peer_append H bc b =
     (if index b = index (last (chain bc)) + 1 \<and> previous_hash b = hash (last (chain bc)) \<and>
         is_transaction_valid bc (transaction b)
      then (True, bc\<lparr>chain := chain bc @ [b]\<rparr>)
      else (False, bc))"
  by (simp add: add_block_from_peer_append_def from_dict_id Let_def)


section \<open>Setting the initial balance\<close>




section \<open>Balances replayed from the chain\<close>












section \<open>Validity of a transaction\<close>




section \<open>Transactions sent by genesis\<close>






section \<open>Errors of the bookkeeping\<close>

lemma update_transaction_log_iff:
  "update_transaction_log P b =
     (case local_time P (timestamp b) of None \<Rightarrow> Some LocaltimeError | Some _ \<Rightarrow> None)"
  by (simp add: update_transaction_log_def)





text \<open>
  User files that hold both keys raise nothing: with a timestamp that
  \<open>time.localtime\<close> converts, \<open>update_user_files\<close> ends without an error.
\<close>

lemma update_user_file_whole:
  assumes "\<forall>u d. fs (user_file P u) = Some d \<longrightarrow> balance_key d \<noteq> None \<and> transactions_key d \<noteq> None"
  shows "fst (update_user_file P fs user c td) = None \<and>
         (\<forall>u d. snd (update_user_file P fs user c td) (user_file P u) = Some d \<longrightarrow>
            balance_key d \<noteq> None \<and> transactions_key d \<noteq> None)"
proof (cases "fs (user_file P user)")
  case None
  with assms show ?thesis by (simp add: update_user_file_def)
next
  case (Some d)
  with assms have keys: "balance_key d \<noteq> None" "transactions_key d \<noteq> None" by blast+
  then obtain v es where "balance_key d = Some v" "transactions_key d = Some es" by auto
  with Some assms show ?thesis
    by (auto simp: update_user_file_def)
qed

lemma update_user_files_whole:
  assumes "local_time P (timestamp b) \<noteq> None"
    and "\<forall>u d. fs (user_file P u) = Some d \<longrightarrow> balance_key d \<noteq> None \<and> transactions_key d \<noteq> None"
  shows "fst (update_user_files P fs b) = None"
proof -
  from assms(1) obtain ts where ts: "local_time P (timestamp b) = Some ts" by auto
  note one = update_user_file_whole [OF assms(2)]
  have two: "\<And>user c td user' c' td'.
      fst (update_user_file P (snd (update_user_file P fs user c td)) user' c' td') = None"
    using update_user_file_whole [OF conjunct2 [OF one]] by blast
  let ?s = "str_lower P (sender (transaction b))"
  let ?r = "str_lower P (recipient (transaction b))"
  let ?sent = "update_user_file P fs ?s (- amount (transaction b))
        \<lparr>entry_type = ''sent'', counterparty = Some ?r, entry_amount = amount (transaction b),
         entry_timestamp = ts, block_hash = hash b\<rparr>"
  obtain e1 fs1 where sent: "?sent = (e1, fs1)" by (cases ?sent)
  from one [of ?s] sent have e1: "e1 = None"
    by (metis fst_conv)
  from two sent have after: "\<And>user' c' td'. fst (update_user_file P fs1 user' c' td') = None"
    by (metis snd_conv)
  show ?thesis
    unfolding update_user_files_def Let_def ts
    by (simp add: one sent e1 after)
qed


section \<open>Admission of local transactions\<close>


lemma add_transaction_returns:
  assumes "fst (add_transaction P fs bc s r a now) = Inr b"
  shows "add_transaction_append (hash_of P) (str_lower P) bc s r a now =
           (Inr b, snd (snd (add_transaction P fs bc s r a now)))"
  using assms
  by (auto simp: add_transaction_def split: option.splits prod.splits sum.splits)





section \<open>Blocks received from peers\<close>

lemma add_block_from_peer_after_append:
  assumes "add_block_from_peer_append (hash_of P) bc b = (True, bc1)"
  shows "snd (snd (add_block_from_peer P fs bc b)) = bc1 \<and>
         fst (add_block_from_peer P fs bc b) =
           (case local_time P (timestamp b) of
              None \<Rightarrow> Inl LocaltimeError
            | Some _ \<Rightarrow> (case fst (update_user_files P fs b) of Some e \<Rightarrow> Inl e | None \<Rightarrow> Inr True))"
  using assms
  by (simp add: add_block_from_peer_def update_transaction_log_def from_dict_id
      split: option.splits prod.splits)

text \<open>
  Claim C3, as stated, has the call return true when the three checks pass. A block
  that passes them and carries the timestamp \<open>10 ^ 20\<close> is appended, and then
  \<open>time.localtime\<close> raises in \<open>update_transaction_log\<close>: the call returns nothing.
\<close>

lemma add_block_from_peer_returns_True:
  assumes "chain bc \<noteq> []"
    and "index b = index (last (chain bc)) + 1" "previous_hash b = hash (last (chain bc))"
    and "is_transaction_valid bc (transaction b)"
    and "local_time P (timestamp b) \<noteq> None"
    and "\<forall>u d. fs (user_file P u) = Some d \<longrightarrow> balance_key d \<noteq> None \<and> transactions_key d \<noteq> None"
  shows "fst (add_block_from_peer P fs bc b) = Inr True"
proof -
  from assms(1-4) have "add_block_from_peer_append (hash_of P) bc b = (True, bc\<lparr>chain := chain bc @ [b]\<rparr>)"
    by (simp add: add_block_from_peer_append_rule)
  from add_block_from_peer_after_append [OF this, of fs] assms(5)
    update_user_files_whole [OF assms(5,6)]
  show ?thesis by auto
qed







section \<open>Consensus with the rebuilt user files\<close>




end
